theory Spec2Isabelle
  imports Main
begin

section \<open>The browser environment shared by both pages\<close>

text \<open>
  Both page components are React function components. Their \<^verbatim>\<open>useState\<close> cells and
  \<^verbatim>\<open>useRef\<close> cells become fields of a record; every handler becomes a function from
  the page to the page. What a handler does to the outside world (notifications,
  backend requests, camera requests, socket and timer calls) is appended to \<open>trace\<close>,
  in program order. What the outside world answers (the result of a backend call, the
  result of \<^verbatim>\<open>getUserMedia\<close>, the answer to \<^verbatim>\<open>confirm\<close>, the encoded canvas
  snapshot) is an argument of the handler.

  A \<^verbatim>\<open>MediaStream\<close> is the list of its tracks (\<^verbatim>\<open>getTracks()\<close>); the camera tracks
  that are live are the set \<open>live_tracks\<close>, and \<^verbatim>\<open>t.stop()\<close> removes \<open>t\<close> from it.
\<close>

type_synonym track_id = nat
type_synonym media_stream = "track_id list"

text \<open>A mounted \<^verbatim>\<open><video>\<close> element is its \<^verbatim>\<open>srcObject\<close>.\<close>
type_synonym video_el = "media_stream option"

datatype media_error = NotAllowedError | NotFoundError

text \<open>An axios error; the field is \<^verbatim>\<open>err.response?.data?.detail\<close>.\<close>
datatype api_error = ApiError "string option"

datatype toast =
    ToastError string
  | ToastSuccess string
  | ToastDetected string  \<comment> \<open>the 3000 ms "<name> marked present" success toast\<close>

datatype request =
    GetStudents
  | DeleteStudent nat
  | PostFace "nat option" "string list"
  | GetLogs nat
  | PostStop
  | PostOverride nat nat string

datatype effect =
    Toast toast
  | Request request
  | GetUserMedia
  | NewWebSocket
  | WsClose
  | SetInterval nat
  | ClearInterval nat

record camera_page =
  videoRef :: "video_el option"
  canvasRef :: bool
  streamRef :: "media_stream option"
  live_tracks :: "track_id set"
  trace :: "effect list"

text \<open>A call that reaches the outside world is recorded at the end of the trace.\<close>
definition emit :: "effect \<Rightarrow> 'a camera_page_scheme \<Rightarrow> 'a camera_page_scheme" where
  "emit e st = st\<lparr>trace := trace st @ [e]\<rparr>"

definition toast_error :: "string \<Rightarrow> 'a camera_page_scheme \<Rightarrow> 'a camera_page_scheme" where
  "toast_error msg st = emit (Toast (ToastError msg)) st"

definition toast_success :: "string \<Rightarrow> 'a camera_page_scheme \<Rightarrow> 'a camera_page_scheme" where
  "toast_success msg st = emit (Toast (ToastSuccess msg)) st"

definition api_call :: "request \<Rightarrow> 'a camera_page_scheme \<Rightarrow> 'a camera_page_scheme" where
  "api_call r st = emit (Request r) st"

text \<open>\<^verbatim>\<open>err.response?.data?.detail || fallback\<close>: an empty string is falsy.\<close>
definition detail_or :: "api_error \<Rightarrow> string \<Rightarrow> string" where
  "detail_or e fallback =
     (case e of ApiError None \<Rightarrow> fallback
      | ApiError (Some d) \<Rightarrow> if d = [] then fallback else d)"

text \<open>\<^verbatim>\<open>stream.getTracks().forEach((t) => t.stop())\<close>\<close>
fun stop_tracks :: "media_stream \<Rightarrow> track_id set \<Rightarrow> track_id set" where
  "stop_tracks [] live = live"
| "stop_tracks (t # ts) live = stop_tracks ts (live - {t})"

text \<open>
  \<^verbatim>\<open>if (streamRef.current) { ...forEach((t) => t.stop()); streamRef.current = null; }\<close>,
  the block that \<^verbatim>\<open>stopCapture\<close> and \<^verbatim>\<open>stopStreaming\<close> both contain.
\<close>
definition release_camera :: "'a camera_page_scheme \<Rightarrow> 'a camera_page_scheme" where
  "release_camera st =
     (case streamRef st of
        None \<Rightarrow> st
      | Some s \<Rightarrow> st\<lparr>live_tracks := stop_tracks s (live_tracks st), streamRef := None\<rparr>)"

text \<open>
  A granted \<^verbatim>\<open>getUserMedia\<close> hands over a stream whose tracks are live; the handler
  then runs \<^verbatim>\<open>streamRef.current = stream; if (videoRef.current)
  videoRef.current.srcObject = stream\<close>.
\<close>
definition attach_stream :: "media_stream \<Rightarrow> 'a camera_page_scheme \<Rightarrow> 'a camera_page_scheme" where
  "attach_stream s st =
     st\<lparr>live_tracks := live_tracks st \<union> set s,
        streamRef := Some s,
        videoRef := (case videoRef st of None \<Rightarrow> None | Some v \<Rightarrow> Some (Some s))\<rparr>"


text \<open>What a handler appended to the trace.\<close>
definition new_effects :: "'a camera_page_scheme \<Rightarrow> 'b camera_page_scheme \<Rightarrow> effect list" where
  "new_effects st st' = drop (length (trace st)) (trace st')"

lemmas effect_defs = emit_def toast_error_def toast_success_def api_call_def

section \<open>StudentManagementPage\<close>

definition CAPTURE_ANGLES :: "string list" where
  "CAPTURE_ANGLES = [''Front'', ''Left'', ''Right'', ''Look Up'']"

record student =
  student_key :: nat  \<comment> \<open>the field \<^verbatim>\<open>id\<close>\<close>
  full_name :: string
  college_roll_number :: string
  branch :: string
  semester :: nat
  has_face :: bool

text \<open>
  The \<^verbatim>\<open>useState\<close> cells \<open>students\<close>, \<open>capturing\<close>, \<open>capturedImages\<close>, \<open>currentAngle\<close>
  and the three refs. The cells \<^verbatim>\<open>showForm\<close> and \<^verbatim>\<open>form\<close> belong to the registration
  form, which none of the handlers below reads or writes.
\<close>
record sm_page = camera_page +
  students :: "student list"
  capturing :: "nat option"
  capturedImages :: "string list"
  currentAngle :: nat

text \<open>The page as first mounted: the \<^verbatim>\<open>useState\<close> and \<^verbatim>\<open>useRef\<close> initial values.\<close>
definition sm_initial :: sm_page where
  "sm_initial =
     \<lparr>videoRef = None, canvasRef = False, streamRef = None, live_tracks = {}, trace = [],
      students = [], capturing = None, capturedImages = [], currentAngle = 0\<rparr>"


text \<open>JavaScript truthiness of \<^verbatim>\<open>capturing\<close>: \<^verbatim>\<open>null\<close> and the number 0 are falsy.\<close>
definition truthy_id :: "nat option \<Rightarrow> bool" where
  "truthy_id c = (case c of None \<Rightarrow> False | Some n \<Rightarrow> n \<noteq> 0)"

text \<open>
  The re-render after a state change. The capture modal, with its \<^verbatim>\<open><video
  ref={videoRef}>\<close> and \<^verbatim>\<open><canvas ref={canvasRef}>\<close>, is rendered under
  \<^verbatim>\<open>{capturing && (...)}\<close>: React sets both refs when the modal mounts (a fresh video
  element has no \<^verbatim>\<open>srcObject\<close>), keeps them while it stays, and nulls them when it
  unmounts.
\<close>
definition render_sm :: "sm_page \<Rightarrow> sm_page" where
  "render_sm st =
     (if truthy_id (capturing st)
      then st\<lparr>videoRef := Some (case videoRef st of None \<Rightarrow> None | Some v \<Rightarrow> v),
              canvasRef := True\<rparr>
      else st\<lparr>videoRef := None, canvasRef := False\<rparr>)"

text \<open>
  \<^verbatim>\<open>loadStudents\<close>: the part up to the \<^verbatim>\<open>await\<close>, the part after it, and the
  uninterrupted run.
\<close>
definition loadStudents_begin :: "sm_page \<Rightarrow> sm_page" where
  "loadStudents_begin st = api_call GetStudents st"

definition loadStudents_resume :: "api_error + student list \<Rightarrow> sm_page \<Rightarrow> sm_page" where
  "loadStudents_resume res st =
     (case res of
        Inr data \<Rightarrow> st\<lparr>students := data\<rparr>
      | Inl err \<Rightarrow> toast_error ''Failed to load students'' st)"

definition loadStudents :: "api_error + student list \<Rightarrow> sm_page \<Rightarrow> sm_page" where
  "loadStudents res st = loadStudents_resume res (loadStudents_begin st)"

text \<open>
  \<^verbatim>\<open>handleDelete(id)\<close>; \<open>confirmed\<close> is what \<^verbatim>\<open>confirm('Delete this student?')\<close>
  returns, \<open>del\<close> the outcome of the DELETE, \<open>reload\<close> the outcome of the GET that
  \<^verbatim>\<open>loadStudents()\<close> issues.
\<close>
definition handleDelete ::
  "nat \<Rightarrow> bool \<Rightarrow> api_error + unit \<Rightarrow> api_error + student list \<Rightarrow> sm_page \<Rightarrow> sm_page" where
  "handleDelete ident confirmed del reload st =
     (if \<not> confirmed then st
      else
        (case del of
           Inr ok \<Rightarrow> loadStudents reload (toast_success ''Student deleted'' (api_call (DeleteStudent ident) st))
         | Inl err \<Rightarrow> toast_error ''Failed to delete'' (api_call (DeleteStudent ident) st)))"

text \<open>
  \<^verbatim>\<open>startCapture(studentId)\<close>: the three setters and the camera request run before the
  \<^verbatim>\<open>await\<close>; the page re-renders (the modal mounts) while the permission is pending;
  the rest runs with the outcome of \<^verbatim>\<open>getUserMedia\<close>.
\<close>
definition startCapture_begin :: "nat \<Rightarrow> sm_page \<Rightarrow> sm_page" where
  "startCapture_begin studentId st =
     emit GetUserMedia (st\<lparr>capturing := Some studentId, capturedImages := [], currentAngle := 0\<rparr>)"

definition startCapture_resume :: "media_error + media_stream \<Rightarrow> sm_page \<Rightarrow> sm_page" where
  "startCapture_resume res st =
     (case res of
        Inr stream \<Rightarrow> attach_stream stream st
      | Inl err \<Rightarrow> (toast_error ''Camera access denied'' st)\<lparr>capturing := None\<rparr>)"

definition startCapture :: "nat \<Rightarrow> media_error + media_stream \<Rightarrow> sm_page \<Rightarrow> sm_page" where
  "startCapture studentId res st =
     render_sm (startCapture_resume res (render_sm (startCapture_begin studentId st)))"

text \<open>
  \<^verbatim>\<open>captureFrame\<close> is a \<^verbatim>\<open>useCallback\<close> over \<^verbatim>\<open>[currentAngle]\<close>: \<open>angle\<close> is the value
  of \<^verbatim>\<open>currentAngle\<close> the callback closed over, \<open>b64\<close> what the canvas snapshot encodes
  to. \<^verbatim>\<open>setCapturedImages\<close> is given an updater, so it appends to the live list.
\<close>
definition captureFrame :: "nat \<Rightarrow> string \<Rightarrow> sm_page \<Rightarrow> sm_page" where
  "captureFrame angle b64 st =
     (if videoRef st = None \<or> \<not> canvasRef st then st
      else
        (let st1 = st\<lparr>capturedImages := capturedImages st @ [b64]\<rparr>;
             nextAngle = angle + 1;
             st2 = (if nextAngle \<ge> length CAPTURE_ANGLES
                    then toast_success ''All angles captured!'' st1 else st1)
         in st2\<lparr>currentAngle := nextAngle\<rparr>))"

text \<open>
  One click on the capture button: the callback of the latest render runs, then the
  page re-renders. A list of clicks, one snapshot each.
\<close>
definition captureCurrent :: "string \<Rightarrow> sm_page \<Rightarrow> sm_page" where
  "captureCurrent b64 st = render_sm (captureFrame (currentAngle st) b64 st)"

fun captureCurrent_calls :: "string list \<Rightarrow> sm_page \<Rightarrow> sm_page" where
  "captureCurrent_calls [] st = st"
| "captureCurrent_calls (b # bs) st = captureCurrent_calls bs (captureCurrent b st)"

definition stopCapture :: "sm_page \<Rightarrow> sm_page" where
  "stopCapture st = (release_camera st)\<lparr>capturing := None, capturedImages := [], currentAngle := 0\<rparr>"

text \<open>
  \<^verbatim>\<open>submitFaces\<close>; \<open>res\<close> is the outcome of the POST, \<open>reload\<close> the outcome of the GET
  that \<^verbatim>\<open>loadStudents()\<close> issues after a success.
\<close>
definition submitFaces :: "api_error + unit \<Rightarrow> api_error + student list \<Rightarrow> sm_page \<Rightarrow> sm_page" where
  "submitFaces res reload st =
     (if length (capturedImages st) = 0 then toast_error ''No images captured'' st
      else
        (case res of
           Inr ok \<Rightarrow>
             loadStudents reload
               (stopCapture
                 (toast_success ''Face registered successfully!''
                   (api_call (PostFace (capturing st) (capturedImages st)) st)))
         | Inl err \<Rightarrow>
             toast_error (detail_or err ''Face registration failed'')
               (api_call (PostFace (capturing st) (capturedImages st)) st)))"

text \<open>
  The page while the camera permission prompt of \<^verbatim>\<open>startCapture(1)\<close> is still open:
  the setters have run and the modal has mounted, \<^verbatim>\<open>getUserMedia\<close> has not answered.
\<close>
definition sm_pending :: sm_page where
  "sm_pending = render_sm (startCapture_begin 1 sm_initial)"


text \<open>
  The operator cancels while the permission prompt of \<^verbatim>\<open>startCapture(1)\<close> is open, and
  the camera is granted afterwards (track 7): the continuation of \<^verbatim>\<open>startCapture\<close>
  stores the stream although no capture is in progress.
\<close>
definition sm_late_grant :: sm_page where
  "sm_late_grant = render_sm (startCapture_resume (Inr [7]) (render_sm (stopCapture sm_pending)))"


section \<open>AttendanceHubPage\<close>

record attendance_session =
  session_id :: nat  \<comment> \<open>the field \<^verbatim>\<open>id\<close>\<close>
  start_time :: string
  session_status :: string  \<comment> \<open>the field \<^verbatim>\<open>status\<close>\<close>

record attendance_log =
  log_id :: nat  \<comment> \<open>the field \<^verbatim>\<open>id\<close>\<close>
  student_id :: nat
  student_name :: string
  roll_number :: string
  status :: string

record session_summary =
  summary_session_id :: nat  \<comment> \<open>the field \<^verbatim>\<open>session_id\<close>\<close>
  total_students :: nat
  present_count :: nat
  absent_count :: nat
  summary_logs :: "attendance_log list"  \<comment> \<open>the field \<^verbatim>\<open>logs\<close>\<close>

record detection =
  det_name :: string  \<comment> \<open>the field \<^verbatim>\<open>name\<close>\<close>

text \<open>A parsed inbound message \<^verbatim>\<open>{frame?, detections?}\<close>.\<close>
record ws_message =
  frame :: "string option"
  detections :: "detection list option"

datatype ready_state = CONNECTING | OPEN | CLOSING | CLOSED

text \<open>A mounted \<^verbatim>\<open><img>\<close> element is its \<^verbatim>\<open>src\<close>.\<close>
type_synonym img_el = "string option"

text \<open>
  The \<^verbatim>\<open>useState\<close> cells \<open>session\<close>, \<open>logs\<close>, \<open>streaming\<close>, \<open>summary\<close> and the six refs;
  \<open>wsRef\<close> holds the socket's \<^verbatim>\<open>readyState\<close>, \<open>intervalRef\<close> the timer id.
\<close>
record hub_page = camera_page +
  session :: "attendance_session option"
  logs :: "attendance_log list"
  streaming :: bool
  summary :: "session_summary option"
  wsRef :: "ready_state option"
  feedImgRef :: "img_el option"
  intervalRef :: "nat option"

definition hub_initial :: hub_page where
  "hub_initial =
     \<lparr>videoRef = None, canvasRef = False, streamRef = None, live_tracks = {}, trace = [],
      session = None, logs = [], streaming = False, summary = None,
      wsRef = None, feedImgRef = None, intervalRef = None\<rparr>"


text \<open>
  The re-render after a state change: the hidden \<^verbatim>\<open><video ref={videoRef}>\<close> and the
  \<^verbatim>\<open><img ref={feedImgRef}>\<close> are rendered under \<^verbatim>\<open>{streaming ? ... : ...}\<close>, the
  canvas always.
\<close>
definition render_hub :: "hub_page \<Rightarrow> hub_page" where
  "render_hub st =
     (if streaming st
      then st\<lparr>videoRef := Some (case videoRef st of None \<Rightarrow> None | Some v \<Rightarrow> v),
              canvasRef := True,
              feedImgRef := Some (case feedImgRef st of None \<Rightarrow> None | Some i \<Rightarrow> i)\<rparr>
      else st\<lparr>videoRef := None, canvasRef := True, feedImgRef := None\<rparr>)"

text \<open>\<^verbatim>\<open>loadLogs(sessionId)\<close>: up to the \<^verbatim>\<open>await\<close>, after it, and uninterrupted.\<close>
definition loadLogs_begin :: "nat \<Rightarrow> hub_page \<Rightarrow> hub_page" where
  "loadLogs_begin sessionId st = api_call (GetLogs sessionId) st"

definition loadLogs_resume :: "api_error + attendance_log list \<Rightarrow> hub_page \<Rightarrow> hub_page" where
  "loadLogs_resume res st = (case res of Inr data \<Rightarrow> st\<lparr>logs := data\<rparr> | Inl err \<Rightarrow> st)"

definition loadLogs :: "nat \<Rightarrow> api_error + attendance_log list \<Rightarrow> hub_page \<Rightarrow> hub_page" where
  "loadLogs sessionId res st = loadLogs_resume res (loadLogs_begin sessionId st)"

text \<open>
  \<^verbatim>\<open>stopStreaming\<close>. A timer id is tested for truthiness (\<^verbatim>\<open>if (intervalRef.current)\<close>),
  so the number 0 would be left alone; the socket and the stream are objects.
\<close>
definition stopStreaming :: "hub_page \<Rightarrow> hub_page" where
  "stopStreaming st =
     (let st1 = (case intervalRef st of
                   None \<Rightarrow> st
                 | Some n \<Rightarrow> if n = 0 then st
                             else (emit (ClearInterval n) st)\<lparr>intervalRef := None\<rparr>);
          st2 = (case wsRef st1 of
                   None \<Rightarrow> st1
                 | Some ws \<Rightarrow> (emit WsClose st1)\<lparr>wsRef := None\<rparr>);
          st3 = release_camera st2
      in st3\<lparr>streaming := False\<rparr>)"



text \<open>
  \<^verbatim>\<open>startStreaming\<close>; \<open>res\<close> is the outcome of \<^verbatim>\<open>getUserMedia\<close>. The socket handlers
  it installs are the functions \<open>ws_onopen\<close>, \<open>ws_onmessage\<close>, \<open>ws_onerror\<close> and
  \<open>ws_onclose\<close> below.
\<close>
definition startStreaming :: "media_error + media_stream \<Rightarrow> hub_page \<Rightarrow> hub_page" where
  "startStreaming res st =
     (case session st of
        None \<Rightarrow> toast_error ''Start a session first'' st
      | Some s \<Rightarrow>
          (case res of
             Inr stream \<Rightarrow>
               (emit NewWebSocket (attach_stream stream (emit GetUserMedia st)))
                 \<lparr>wsRef := Some CONNECTING\<rparr>
           | Inl err \<Rightarrow> toast_error ''Camera access denied'' (emit GetUserMedia st)))"

text \<open>
  \<^verbatim>\<open>ws.onopen\<close>; the socket has become \<^verbatim>\<open>OPEN\<close>, \<open>timer\<close> is the id that
  \<^verbatim>\<open>setInterval\<close> returns.
\<close>
definition ws_onopen :: "nat \<Rightarrow> hub_page \<Rightarrow> hub_page" where
  "ws_onopen timer st =
     (emit (SetInterval timer)
        (toast_success ''Camera feed started''
          (st\<lparr>streaming := True,
              wsRef := (case wsRef st of None \<Rightarrow> None | Some ws \<Rightarrow> Some OPEN)\<rparr>)))
       \<lparr>intervalRef := Some timer\<rparr>"

definition ws_onerror :: "hub_page \<Rightarrow> hub_page" where
  "ws_onerror st = toast_error ''WebSocket connection error'' st"

text \<open>\<^verbatim>\<open>ws.onclose\<close>; the socket has become \<^verbatim>\<open>CLOSED\<close>.\<close>
definition ws_onclose :: "hub_page \<Rightarrow> hub_page" where
  "ws_onclose st =
     st\<lparr>streaming := False,
        wsRef := (case wsRef st of None \<Rightarrow> None | Some ws \<Rightarrow> Some CLOSED)\<rparr>"

text \<open>\<^verbatim>\<open>data.detections.forEach((det) => toast.success(...))\<close>\<close>
fun toast_detections :: "detection list \<Rightarrow> hub_page \<Rightarrow> hub_page" where
  "toast_detections [] st = st"
| "toast_detections (det # dets) st =
     toast_detections dets (emit (Toast (ToastDetected (det_name det))) st)"

text \<open>
  \<^verbatim>\<open>ws.onmessage\<close> on a parsed message; \<open>sessionId\<close> is \<^verbatim>\<open>session.id\<close> of the session
  the handler closed over. \<^verbatim>\<open>data.frame && feedImgRef.current\<close> is a truthiness test:
  an absent or empty \<^verbatim>\<open>frame\<close> is skipped. \<^verbatim>\<open>loadLogs\<close> is not awaited: only its
  request is issued here.
\<close>
definition ws_onmessage :: "nat \<Rightarrow> ws_message \<Rightarrow> hub_page \<Rightarrow> hub_page" where
  "ws_onmessage sessionId data st =
     (let st1 = (case frame data of
                   None \<Rightarrow> st
                 | Some f \<Rightarrow>
                     if f \<noteq> [] \<and> feedImgRef st \<noteq> None
                     then st\<lparr>feedImgRef := Some (Some (''data:image/jpeg;base64,'' @ f))\<rparr>
                     else st)
      in case detections data of
           None \<Rightarrow> st1
         | Some dets \<Rightarrow>
             if length dets > 0 then loadLogs_begin sessionId (toast_detections dets st1)
             else st1)"

text \<open>The handler run on a sequence of inbound messages, in arrival order.\<close>
fun ws_messages :: "nat \<Rightarrow> ws_message list \<Rightarrow> hub_page \<Rightarrow> hub_page" where
  "ws_messages sessionId [] st = st"
| "ws_messages sessionId (m # ms) st = ws_messages sessionId ms (ws_onmessage sessionId m st)"

text \<open>What the feed image shows: the \<^verbatim>\<open>src\<close> of the mounted \<^verbatim>\<open><img>\<close>, if any.\<close>
definition displayed_frame :: "hub_page \<Rightarrow> string option" where
  "displayed_frame st = (case feedImgRef st of None \<Rightarrow> None | Some src \<Rightarrow> src)"

text \<open>
  The specification's side of the frame property: a message carries an annotated-frame
  payload when its \<^verbatim>\<open>frame\<close> field holds a non-empty string (a base64 JPEG is never
  empty), and \<open>last_frame\<close> is the payload of the last such message of a sequence.
\<close>
definition carries_frame :: "ws_message \<Rightarrow> bool" where
  "carries_frame m = (case frame m of None \<Rightarrow> False | Some f \<Rightarrow> f \<noteq> [])"

definition last_frame :: "ws_message list \<Rightarrow> string option" where
  "last_frame ms = (case filter carries_frame ms of [] \<Rightarrow> None | m # rest \<Rightarrow> frame (last (m # rest)))"

text \<open>
  Example pages: one with an active session and no streaming, and the same page once
  the streaming loop runs (camera granted, socket opened, timer started, feed
  mounted); a log entry and a message script.
\<close>
definition example_session :: attendance_session where
  "example_session = \<lparr>session_id = 5, start_time = ''09:00'', session_status = ''active''\<rparr>"

definition hub_session_idle :: hub_page where
  "hub_session_idle = render_hub (hub_initial\<lparr>session := Some example_session\<rparr>)"

definition hub_streaming :: hub_page where
  "hub_streaming = render_hub (ws_onopen 1 (startStreaming (Inr [7]) hub_session_idle))"


definition example_messages :: "ws_message list" where
  "example_messages =
     [\<lparr>frame = Some ''AAAA'', detections = None\<rparr>,
      \<lparr>frame = None, detections = Some [\<lparr>det_name = ''Asha''\<rparr>]\<rparr>,
      \<lparr>frame = Some ''BBBB'', detections = Some []\<rparr>,
      \<lparr>frame = None, detections = Some [\<lparr>det_name = ''Ravi''\<rparr>]\<rparr>]"

section \<open>Properties of the face-image capture loop\<close>

lemma new_effects_same: "new_effects st st = []"
  by (simp add: new_effects_def)


text \<open>
  C2. \<^verbatim>\<open>submitFaces\<close> with an empty captured-image list only raises the
  "No images captured" notification: no request is issued, and the captured list, the
  angle index, the capture marker, the stream handle and the live camera tracks are
  what they were.
\<close>
theorem submitFaces_empty_fails_locally:
  assumes "capturedImages st = []"
  shows "submitFaces res reload st = st\<lparr>trace := trace st @ [Toast (ToastError ''No images captured'')]\<rparr>"
  using assms by (simp add: submitFaces_def effect_defs)

theorem submitFaces_empty_fails_locally_witness:
  "capturedImages (startCapture 1 (Inr [7]) sm_initial) = []
   \<and> submitFaces (Inr ()) (Inr []) (startCapture 1 (Inr [7]) sm_initial)
     = (startCapture 1 (Inr [7]) sm_initial)
         \<lparr>trace := [GetUserMedia, Toast (ToastError ''No images captured'')]\<rparr>
   \<and> streamRef (submitFaces (Inr ()) (Inr []) (startCapture 1 (Inr [7]) sm_initial)) = Some [7]"
proof -
  have h: "capturedImages (startCapture 1 (Inr [7]) sm_initial) = []"
    by (simp add: startCapture_def startCapture_resume_def startCapture_begin_def render_sm_def
        attach_stream_def truthy_id_def sm_initial_def effect_defs)
  have t: "trace (startCapture 1 (Inr [7]) sm_initial) = [GetUserMedia]"
    by (simp add: startCapture_def startCapture_resume_def startCapture_begin_def render_sm_def
        attach_stream_def truthy_id_def sm_initial_def effect_defs)
  have s: "streamRef (startCapture 1 (Inr [7]) sm_initial) = Some [7]"
    by (simp add: startCapture_def startCapture_resume_def startCapture_begin_def render_sm_def
        attach_stream_def truthy_id_def sm_initial_def effect_defs)
  show ?thesis
    using submitFaces_empty_fails_locally [OF h, of "Inr ()" "Inr []"] h t s by simp
qed

lemma render_sm_mounted:
  "truthy_id (capturing st) \<Longrightarrow> videoRef st \<noteq> None \<Longrightarrow> canvasRef st \<Longrightarrow> render_sm st = st"
  by (auto simp: render_sm_def)

lemma captureFrame_mounted:
  "videoRef st \<noteq> None \<Longrightarrow> canvasRef st \<Longrightarrow>
   capturedImages (captureFrame a b st) = capturedImages st @ [b]
   \<and> currentAngle (captureFrame a b st) = a + 1
   \<and> capturing (captureFrame a b st) = capturing st
   \<and> videoRef (captureFrame a b st) = videoRef st
   \<and> canvasRef (captureFrame a b st) = canvasRef st
   \<and> streamRef (captureFrame a b st) = streamRef st
   \<and> live_tracks (captureFrame a b st) = live_tracks st"
  by (simp add: captureFrame_def Let_def effect_defs)

lemma captureCurrent_mounted:
  assumes "truthy_id (capturing st)" "videoRef st \<noteq> None" "canvasRef st"
  shows "capturedImages (captureCurrent b st) = capturedImages st @ [b]
   \<and> currentAngle (captureCurrent b st) = currentAngle st + 1
   \<and> capturing (captureCurrent b st) = capturing st
   \<and> videoRef (captureCurrent b st) = videoRef st
   \<and> canvasRef (captureCurrent b st)
   \<and> streamRef (captureCurrent b st) = streamRef st
   \<and> live_tracks (captureCurrent b st) = live_tracks st"
proof -
  let ?c = "captureFrame (currentAngle st) b st"
  have c: "capturedImages ?c = capturedImages st @ [b]" "currentAngle ?c = currentAngle st + 1"
    "capturing ?c = capturing st" "videoRef ?c = videoRef st" "canvasRef ?c = canvasRef st"
    "streamRef ?c = streamRef st" "live_tracks ?c = live_tracks st"
    using captureFrame_mounted [OF assms(2,3), of "currentAngle st" b] by simp_all
  have "render_sm ?c = ?c"
    by (rule render_sm_mounted) (simp_all add: c assms)
  then show ?thesis
    by (simp add: captureCurrent_def c assms)
qed

lemma captureCurrent_calls_mounted:
  "truthy_id (capturing st) \<Longrightarrow> videoRef st \<noteq> None \<Longrightarrow> canvasRef st \<Longrightarrow>
   capturedImages (captureCurrent_calls bs st) = capturedImages st @ bs
   \<and> currentAngle (captureCurrent_calls bs st) = currentAngle st + length bs
   \<and> streamRef (captureCurrent_calls bs st) = streamRef st
   \<and> live_tracks (captureCurrent_calls bs st) = live_tracks st"
proof (induction bs arbitrary: st)
  case Nil
  then show ?case by simp
next
  case (Cons b bs)
  note step = captureCurrent_mounted [OF Cons.prems, of b]
  have "truthy_id (capturing (captureCurrent b st))" "videoRef (captureCurrent b st) \<noteq> None"
    "canvasRef (captureCurrent b st)"
    using step Cons.prems by simp_all
  from Cons.IH [OF this] step show ?case by simp
qed

lemma startCapture_granted:
  assumes "studentId \<noteq> 0"
  shows "capturing (startCapture studentId (Inr s) st) = Some studentId
   \<and> videoRef (startCapture studentId (Inr s) st) = Some (Some s)
   \<and> canvasRef (startCapture studentId (Inr s) st)
   \<and> streamRef (startCapture studentId (Inr s) st) = Some s
   \<and> live_tracks (startCapture studentId (Inr s) st) = live_tracks st \<union> set s
   \<and> capturedImages (startCapture studentId (Inr s) st) = []
   \<and> currentAngle (startCapture studentId (Inr s) st) = 0"
  using assms
  by (simp add: startCapture_def startCapture_resume_def startCapture_begin_def render_sm_def
      attach_stream_def truthy_id_def effect_defs)

text \<open>
  C1. After \<^verbatim>\<open>startCapture\<close> has been granted a camera stream, any sequence of
  capture clicks no longer than the angle list leaves exactly one captured image per
  click, in click order, and an angle index equal to the number of clicks; the stream
  stays held throughout.
\<close>
theorem captureCurrent_calls_count:
  assumes "studentId \<noteq> 0" and "length frames \<le> length CAPTURE_ANGLES"
  shows "length (capturedImages (captureCurrent_calls frames (startCapture studentId (Inr s) st)))
           = length frames
   \<and> currentAngle (captureCurrent_calls frames (startCapture studentId (Inr s) st)) = length frames
   \<and> capturedImages (captureCurrent_calls frames (startCapture studentId (Inr s) st)) = frames
   \<and> streamRef (captureCurrent_calls frames (startCapture studentId (Inr s) st)) = Some s"
proof -
  note g = startCapture_granted [OF assms(1), of s st]
  have "truthy_id (capturing (startCapture studentId (Inr s) st))"
    using g assms(1) by (simp add: truthy_id_def)
  moreover have "videoRef (startCapture studentId (Inr s) st) \<noteq> None" using g by simp
  moreover have "canvasRef (startCapture studentId (Inr s) st)" using g by simp
  ultimately show ?thesis
    using captureCurrent_calls_mounted [of "startCapture studentId (Inr s) st" frames] g by simp
qed

theorem captureCurrent_calls_count_witness:
  "(1::nat) \<noteq> 0 \<and> length [''a'', ''b'', ''c''] \<le> length CAPTURE_ANGLES
   \<and> length (capturedImages (captureCurrent_calls [''a'', ''b'', ''c''] (startCapture 1 (Inr [7]) sm_initial))) = 3
   \<and> currentAngle (captureCurrent_calls [''a'', ''b'', ''c''] (startCapture 1 (Inr [7]) sm_initial)) = 3"
proof -
  have a: "(1::nat) \<noteq> 0" by simp
  have b: "length [''a'', ''b'', ''c''] \<le> length CAPTURE_ANGLES" by (simp add: CAPTURE_ANGLES_def)
  show ?thesis
    using captureCurrent_calls_count [OF a b, of "[7]" sm_initial] a b by simp
qed

text \<open>
  C10. When the operator declines the confirmation prompt, \<^verbatim>\<open>handleDelete\<close> leaves the
  page as it was, so it issues no request and keeps the student list; a DELETE request
  appears among the effects of \<^verbatim>\<open>handleDelete\<close> exactly when the prompt was confirmed.
\<close>
theorem handleDelete_declined:
  "handleDelete ident False del reload st = st
   \<and> new_effects st (handleDelete ident False del reload st) = []
   \<and> ((\<exists>j. Request (DeleteStudent j) \<in> set (new_effects st (handleDelete ident confirmed del reload st)))
        = confirmed)"
proof -
  have "\<exists>j. Request (DeleteStudent j) \<in> set (new_effects st (handleDelete ident True del reload st))"
    by (cases del; cases reload)
       (auto simp: handleDelete_def new_effects_def loadStudents_def loadStudents_begin_def
          loadStudents_resume_def effect_defs)
  then show ?thesis
    by (cases confirmed) (simp_all add: handleDelete_def new_effects_def)
qed

theorem handleDelete_declined_witness:
  "handleDelete 3 False (Inr ()) (Inr []) sm_initial = sm_initial
   \<and> students (handleDelete 3 False (Inr ()) (Inr []) sm_initial) = []
   \<and> trace (handleDelete 3 False (Inr ()) (Inr []) sm_initial) = []
   \<and> trace (handleDelete 3 True (Inr ()) (Inr []) sm_initial)
       = [Request (DeleteStudent 3), Toast (ToastSuccess ''Student deleted''), Request GetStudents]"
proof -
  have "trace (handleDelete 3 True (Inr ()) (Inr []) sm_initial)
       = [Request (DeleteStudent 3), Toast (ToastSuccess ''Student deleted''), Request GetStudents]"
    by (simp add: handleDelete_def loadStudents_def loadStudents_begin_def
          loadStudents_resume_def effect_defs sm_initial_def)
  then show ?thesis
    using handleDelete_declined [of 3 "Inr ()" "Inr []" sm_initial True]
    by (simp add: sm_initial_def)
qed

lemma sm_pending_eq:
  "sm_pending =
     \<lparr>videoRef = Some None, canvasRef = True, streamRef = None, live_tracks = {},
      trace = [GetUserMedia],
      students = [], capturing = Some 1, capturedImages = [], currentAngle = 0\<rparr>"
  by (simp add: sm_pending_def startCapture_begin_def render_sm_def truthy_id_def
      sm_initial_def effect_defs)

lemma sm_late_grant_eq:
  "sm_late_grant =
     \<lparr>videoRef = None, canvasRef = False, streamRef = Some [7], live_tracks = {7},
      trace = [GetUserMedia],
      students = [], capturing = None, capturedImages = [], currentAngle = 0\<rparr>"
  by (simp add: sm_late_grant_def sm_pending_eq stopCapture_def release_camera_def
      startCapture_resume_def attach_stream_def render_sm_def truthy_id_def)


text \<open>
  C8, as stated, fails in two ways. The denial branch of \<^verbatim>\<open>startCapture\<close> never
  touches \<^verbatim>\<open>streamRef\<close>: on the page that kept a late grant, a denied start still
  holds the stream, with its track live. And the denial resets neither the list nor the
  angle: one capture click while the prompt is open, then the denial, leaves one
  captured image and angle index 1.
\<close>
theorem startCapture_denied_counterexample:
  "capturing sm_late_grant = None
   \<and> streamRef (startCapture 1 (Inl NotAllowedError) sm_late_grant) = Some [7]
   \<and> live_tracks (startCapture 1 (Inl NotAllowedError) sm_late_grant) = {7}
   \<and> capturing (render_sm (startCapture_resume (Inl NotAllowedError) (captureCurrent '''' sm_pending)))
       = None
   \<and> capturedImages (render_sm (startCapture_resume (Inl NotAllowedError) (captureCurrent '''' sm_pending)))
       = ['''']
   \<and> currentAngle (render_sm (startCapture_resume (Inl NotAllowedError) (captureCurrent '''' sm_pending)))
       = 1"
proof -
  have a: "capturing sm_late_grant = None"
    by (simp add: sm_late_grant_eq)
  have b: "streamRef (startCapture 1 (Inl NotAllowedError) sm_late_grant) = Some [7]"
    "live_tracks (startCapture 1 (Inl NotAllowedError) sm_late_grant) = {7}"
    by (simp_all add: sm_late_grant_eq startCapture_def startCapture_begin_def
        startCapture_resume_def render_sm_def truthy_id_def effect_defs)
  have click: "captureCurrent '''' sm_pending =
     \<lparr>videoRef = Some None, canvasRef = True, streamRef = None, live_tracks = {},
      trace = [GetUserMedia],
      students = [], capturing = Some 1, capturedImages = [''''], currentAngle = 1\<rparr>"
    by (simp add: sm_pending_eq captureCurrent_def captureFrame_def render_sm_def truthy_id_def
        CAPTURE_ANGLES_def Let_def)
  have c: "capturing (render_sm (startCapture_resume (Inl NotAllowedError) (captureCurrent '''' sm_pending)))
       = None"
    "capturedImages (render_sm (startCapture_resume (Inl NotAllowedError) (captureCurrent '''' sm_pending)))
       = ['''']"
    "currentAngle (render_sm (startCapture_resume (Inl NotAllowedError) (captureCurrent '''' sm_pending)))
       = 1"
    by (simp_all add: click startCapture_resume_def render_sm_def truthy_id_def effect_defs)
  from a b c show ?thesis by simp
qed

text \<open>
  C8, amended. A denied \<^verbatim>\<open>startCapture\<close> reports "Camera access denied", clears the
  capture marker and acquires nothing: the stream handle and the live camera tracks
  are what they were before the call. When no other handler runs while the prompt is
  open, the captured-image list is empty and the angle index is 0 afterwards. The
  denial branch on its own, whatever ran while the prompt was open, clears the marker,
  unmounts the modal, and keeps the stream handle, the live tracks, the list and the
  angle it finds.
\<close>
theorem startCapture_denied_clears_marker:
  "capturing (startCapture studentId (Inl err) st) = None
   \<and> capturedImages (startCapture studentId (Inl err) st) = []
   \<and> currentAngle (startCapture studentId (Inl err) st) = 0
   \<and> streamRef (startCapture studentId (Inl err) st) = streamRef st
   \<and> live_tracks (startCapture studentId (Inl err) st) = live_tracks st
   \<and> videoRef (startCapture studentId (Inl err) st) = None
   \<and> students (startCapture studentId (Inl err) st) = students st
   \<and> new_effects st (startCapture studentId (Inl err) st)
       = [GetUserMedia, Toast (ToastError ''Camera access denied'')]
   \<and> render_sm (startCapture_resume (Inl err) st')
       = st'\<lparr>trace := trace st' @ [Toast (ToastError ''Camera access denied'')],
             capturing := None, videoRef := None, canvasRef := False\<rparr>"
  by (simp add: startCapture_def startCapture_resume_def startCapture_begin_def render_sm_def
      effect_defs truthy_id_def new_effects_def)

theorem startCapture_denied_clears_marker_witness:
  "streamRef sm_initial = None
   \<and> capturing (startCapture 1 (Inl NotAllowedError) sm_initial) = None
   \<and> streamRef (startCapture 1 (Inl NotAllowedError) sm_initial) = None
   \<and> live_tracks (startCapture 1 (Inl NotAllowedError) sm_initial) = {}
   \<and> capturedImages (startCapture 1 (Inl NotAllowedError) sm_initial) = []
   \<and> currentAngle (startCapture 1 (Inl NotAllowedError) sm_initial) = 0
   \<and> trace (startCapture 1 (Inl NotAllowedError) sm_initial)
       = [GetUserMedia, Toast (ToastError ''Camera access denied'')]
   \<and> capturing (render_sm (startCapture_resume (Inl NotAllowedError) sm_pending)) = None
   \<and> trace (render_sm (startCapture_resume (Inl NotAllowedError) sm_pending))
       = [GetUserMedia, Toast (ToastError ''Camera access denied'')]"
proof -
  have i: "streamRef sm_initial = None" "live_tracks sm_initial = {}" "trace sm_initial = []"
    by (simp_all add: sm_initial_def)
  have p: "trace sm_pending = [GetUserMedia]"
    by (simp add: sm_pending_eq)
  show ?thesis
    using startCapture_denied_clears_marker [of 1 NotAllowedError sm_initial sm_pending] i p
    by (simp add: new_effects_def)
qed

text \<open>
  C9, as stated, fails: while the permission prompt of \<^verbatim>\<open>startCapture\<close> is open the
  page holds no camera stream, yet the modal is mounted and a capture click appends
  the (empty) snapshot and advances the angle index.
\<close>
theorem captureFrame_no_stream_counterexample:
  "streamRef sm_pending = None \<and> live_tracks sm_pending = {}
   \<and> capturedImages sm_pending = [] \<and> currentAngle sm_pending = 0
   \<and> capturedImages (captureFrame (currentAngle sm_pending) '''' sm_pending) = ['''']
   \<and> currentAngle (captureFrame (currentAngle sm_pending) '''' sm_pending) = 1
   \<and> captureFrame (currentAngle sm_pending) '''' sm_pending \<noteq> sm_pending"
proof -
  have c: "capturedImages (captureFrame (currentAngle sm_pending) '''' sm_pending) = ['''']"
    by (simp add: sm_pending_def captureFrame_def startCapture_begin_def render_sm_def
        truthy_id_def sm_initial_def CAPTURE_ANGLES_def Let_def effect_defs)
  have p: "capturedImages sm_pending = []"
    by (simp add: sm_pending_def startCapture_begin_def render_sm_def truthy_id_def sm_initial_def effect_defs)
  have "captureFrame (currentAngle sm_pending) '''' sm_pending \<noteq> sm_pending"
  proof
    assume "captureFrame (currentAngle sm_pending) '''' sm_pending = sm_pending"
    then have "capturedImages (captureFrame (currentAngle sm_pending) '''' sm_pending)
                 = capturedImages sm_pending" by simp
    with c p show False by simp
  qed
  moreover have "currentAngle (captureFrame (currentAngle sm_pending) '''' sm_pending) = 1"
    by (simp add: sm_pending_def captureFrame_def startCapture_begin_def render_sm_def
        truthy_id_def sm_initial_def CAPTURE_ANGLES_def Let_def effect_defs)
  moreover have "streamRef sm_pending = None \<and> live_tracks sm_pending = {}
     \<and> currentAngle sm_pending = 0"
    by (simp add: sm_pending_def startCapture_begin_def render_sm_def truthy_id_def sm_initial_def effect_defs)
  ultimately show ?thesis using c p by simp
qed

text \<open>
  C9, amended. \<^verbatim>\<open>captureFrame\<close> is a no-op under its own guard: when the preview
  video element or the capture canvas is not mounted, it returns the page unchanged,
  whatever the stream handle holds. After a re-render of a page whose capture marker
  is falsy (no capture modal), that guard holds.
\<close>
theorem captureFrame_unmounted_noop:
  "(videoRef st = None \<or> \<not> canvasRef st \<longrightarrow> captureFrame angle b64 st = st)
   \<and> (\<not> truthy_id (capturing st) \<longrightarrow> captureCurrent b64 (render_sm st) = render_sm st)"
  by (simp add: captureFrame_def captureCurrent_def render_sm_def)

theorem captureFrame_unmounted_noop_witness:
  "videoRef sm_initial = None
   \<and> captureFrame 0 ''AAAA'' sm_initial = sm_initial
   \<and> \<not> truthy_id (capturing sm_initial)
   \<and> captureCurrent ''AAAA'' (render_sm sm_initial) = render_sm sm_initial"
proof -
  have a: "videoRef sm_initial = None" by (simp add: sm_initial_def)
  have b: "\<not> truthy_id (capturing sm_initial)" by (simp add: sm_initial_def truthy_id_def)
  show ?thesis
    using captureFrame_unmounted_noop [of sm_initial 0 "''AAAA''"] a b by blast
qed









section \<open>Properties of the live attendance streaming loop\<close>

text \<open>
  C4. \<^verbatim>\<open>startStreaming\<close> without an active session only raises the "Start a session
  first" notification: it requests no camera and opens no socket, and every ref and
  state cell is what it was.
\<close>
theorem startStreaming_without_session:
  assumes "session st = None"
  shows "startStreaming res st = st\<lparr>trace := trace st @ [Toast (ToastError ''Start a session first'')]\<rparr>
   \<and> GetUserMedia \<notin> set (new_effects st (startStreaming res st))
   \<and> NewWebSocket \<notin> set (new_effects st (startStreaming res st))
   \<and> streamRef (startStreaming res st) = streamRef st
   \<and> wsRef (startStreaming res st) = wsRef st
   \<and> live_tracks (startStreaming res st) = live_tracks st"
  using assms by (simp add: startStreaming_def effect_defs new_effects_def)

theorem startStreaming_without_session_witness:
  "session (render_hub hub_initial) = None
   \<and> trace (startStreaming (Inr [7]) (render_hub hub_initial)) = [Toast (ToastError ''Start a session first'')]
   \<and> streamRef (startStreaming (Inr [7]) (render_hub hub_initial)) = None
   \<and> wsRef (startStreaming (Inr [7]) (render_hub hub_initial)) = None
   \<and> live_tracks (startStreaming (Inr [7]) (render_hub hub_initial)) = {}"
proof -
  have h: "session (render_hub hub_initial) = None"
    by (simp add: render_hub_def hub_initial_def)
  have i: "trace (render_hub hub_initial) = []" "streamRef (render_hub hub_initial) = None"
    "wsRef (render_hub hub_initial) = None" "live_tracks (render_hub hub_initial) = {}"
    by (simp_all add: render_hub_def hub_initial_def)
  show ?thesis
    using startStreaming_without_session [OF h, of "Inr [7]"] h i by simp
qed

lemma stopStreaming_fields:
  "intervalRef (stopStreaming st) = (if intervalRef st = Some 0 then Some 0 else None)"
  "wsRef (stopStreaming st) = None"
  "streamRef (stopStreaming st) = None"
  "streaming (stopStreaming st) = False"
  "session (stopStreaming st) = session st"
  "logs (stopStreaming st) = logs st"
  "summary (stopStreaming st) = summary st"
  by (auto simp: stopStreaming_def Let_def release_camera_def effect_defs
      split: option.splits)

lemma stopStreaming_stopped:
  assumes "intervalRef st = None \<or> intervalRef st = Some 0" "wsRef st = None"
    "streamRef st = None" "\<not> streaming st"
  shows "stopStreaming st = st"
  using assms by (auto simp: stopStreaming_def Let_def release_camera_def)

text \<open>
  C5. Whatever the page state, a second \<^verbatim>\<open>stopStreaming\<close> right after the first
  returns the page unchanged and appends nothing to the trace; the same holds when the
  page re-renders between the two calls.
\<close>
theorem stopStreaming_idempotent:
  "stopStreaming (stopStreaming st) = stopStreaming st
   \<and> new_effects (stopStreaming st) (stopStreaming (stopStreaming st)) = []
   \<and> stopStreaming (render_hub (stopStreaming st)) = render_hub (stopStreaming st)"
proof -
  have i: "intervalRef (stopStreaming st) = None \<or> intervalRef (stopStreaming st) = Some 0"
    by (simp add: stopStreaming_fields)
  have 1: "stopStreaming (stopStreaming st) = stopStreaming st"
    by (rule stopStreaming_stopped) (simp_all add: i stopStreaming_fields)
  have 2: "stopStreaming (render_hub (stopStreaming st)) = render_hub (stopStreaming st)"
    by (rule stopStreaming_stopped) (use i in \<open>simp_all add: render_hub_def stopStreaming_fields\<close>)
  show ?thesis
    using 1 2 by (simp add: new_effects_def)
qed

lemma hub_session_idle_eq:
  "hub_session_idle =
     \<lparr>videoRef = None, canvasRef = True, streamRef = None, live_tracks = {}, trace = [],
      session = Some example_session, logs = [], streaming = False, summary = None,
      wsRef = None, feedImgRef = None, intervalRef = None\<rparr>"
  by (simp add: hub_session_idle_def render_hub_def hub_initial_def)

lemma hub_streaming_eq:
  "hub_streaming =
     \<lparr>videoRef = Some None, canvasRef = True, streamRef = Some [7], live_tracks = {7},
      trace = [GetUserMedia, NewWebSocket, Toast (ToastSuccess ''Camera feed started''),
               SetInterval 1],
      session = Some example_session, logs = [], streaming = True, summary = None,
      wsRef = Some OPEN, feedImgRef = Some None, intervalRef = Some 1\<rparr>"
  by (simp add: hub_streaming_def hub_session_idle_eq render_hub_def ws_onopen_def
      startStreaming_def attach_stream_def effect_defs)

lemma stopStreaming_hub_streaming:
  "stopStreaming hub_streaming =
     \<lparr>videoRef = Some None, canvasRef = True, streamRef = None, live_tracks = {},
      trace = [GetUserMedia, NewWebSocket, Toast (ToastSuccess ''Camera feed started''),
               SetInterval 1, ClearInterval 1, WsClose],
      session = Some example_session, logs = [], streaming = False, summary = None,
      wsRef = None, feedImgRef = Some None, intervalRef = None\<rparr>"
  by (simp add: hub_streaming_eq stopStreaming_def release_camera_def effect_defs Let_def)

theorem stopStreaming_idempotent_witness:
  "streaming hub_streaming
   \<and> new_effects hub_streaming (stopStreaming hub_streaming) = [ClearInterval 1, WsClose]
   \<and> live_tracks hub_streaming = {7} \<and> live_tracks (stopStreaming hub_streaming) = {}
   \<and> stopStreaming (stopStreaming hub_streaming) = stopStreaming hub_streaming
   \<and> new_effects (stopStreaming hub_streaming) (stopStreaming (stopStreaming hub_streaming)) = []"
proof -
  have "streaming hub_streaming" "live_tracks hub_streaming = {7}"
    by (simp_all add: hub_streaming_eq)
  moreover have "new_effects hub_streaming (stopStreaming hub_streaming) = [ClearInterval 1, WsClose]"
    "live_tracks (stopStreaming hub_streaming) = {}"
    by (simp_all add: stopStreaming_hub_streaming new_effects_def) (simp add: hub_streaming_eq)
  ultimately show ?thesis
    using stopStreaming_idempotent [of hub_streaming] by (simp add: new_effects_same)
qed

lemma toast_detections_feed:
  "feedImgRef (toast_detections dets st) = feedImgRef st"
  by (induction dets arbitrary: st) (simp_all add: effect_defs)

lemma ws_onmessage_feed:
  assumes "feedImgRef st \<noteq> None"
  shows "feedImgRef (ws_onmessage sid m st) \<noteq> None"
    and "displayed_frame (ws_onmessage sid m st) =
         (if carries_frame m then map_option (\<lambda>f. ''data:image/jpeg;base64,'' @ f) (frame m)
          else displayed_frame st)"
  using assms
  by (auto simp: ws_onmessage_def Let_def carries_frame_def displayed_frame_def
      toast_detections_feed loadLogs_begin_def effect_defs split: option.splits)

lemma last_frame_Nil: "last_frame [] = None"
  by (simp add: last_frame_def)

lemma last_frame_Cons:
  "last_frame (m # ms) =
     (case last_frame ms of
        Some f \<Rightarrow> Some f
      | None \<Rightarrow> if carries_frame m then frame m else None)"
proof (cases "filter carries_frame ms")
  case Nil
  then show ?thesis by (simp add: last_frame_def)
next
  case (Cons x xs)
  have "last (x # xs) \<in> set (filter carries_frame ms)"
    unfolding Cons [symmetric] using Cons by (metis last_in_set list.distinct(1))
  then have "carries_frame (last (x # xs))" by simp
  then obtain f where f: "frame (last (x # xs)) = Some f"
    by (auto simp: carries_frame_def split: option.splits)
  show ?thesis
    using Cons f by (simp add: last_frame_def)
qed

text \<open>
  C6. While the feed image is mounted, after the handler has processed any finite
  sequence of inbound messages the image shows the (data URL of the) frame payload of
  the last message that carried one, wherever the messages without a frame sit in the
  sequence; with no frame-carrying message the image is what it was.
\<close>
theorem ws_messages_last_frame_wins:
  assumes "feedImgRef st \<noteq> None"
  shows "displayed_frame (ws_messages sessionId ms st) =
     (case last_frame ms of
        None \<Rightarrow> displayed_frame st
      | Some f \<Rightarrow> Some (''data:image/jpeg;base64,'' @ f))"
  using assms
proof (induction ms arbitrary: st)
  case Nil
  then show ?case by (simp add: last_frame_Nil)
next
  case (Cons m ms)
  note step = ws_onmessage_feed [OF Cons.prems, of sessionId m]
  have "displayed_frame (ws_messages sessionId (m # ms) st) =
     (case last_frame ms of
        None \<Rightarrow> displayed_frame (ws_onmessage sessionId m st)
      | Some f \<Rightarrow> Some (''data:image/jpeg;base64,'' @ f))"
    using Cons.IH [OF step(1)] by simp
  also have "\<dots> =
     (case last_frame (m # ms) of
        None \<Rightarrow> displayed_frame st
      | Some f \<Rightarrow> Some (''data:image/jpeg;base64,'' @ f))"
    by (auto simp: last_frame_Cons step(2) carries_frame_def split: option.splits)
  finally show ?case .
qed

theorem ws_messages_last_frame_wins_witness:
  "feedImgRef hub_streaming \<noteq> None
   \<and> last_frame example_messages = Some ''BBBB''
   \<and> displayed_frame (ws_messages 5 example_messages hub_streaming)
       = Some ''data:image/jpeg;base64,BBBB''"
proof -
  have h: "feedImgRef hub_streaming \<noteq> None" by (simp add: hub_streaming_eq)
  have l: "last_frame example_messages = Some ''BBBB''"
    by (simp add: last_frame_def example_messages_def carries_frame_def)
  show ?thesis
    using ws_messages_last_frame_wins [OF h, of 5 example_messages] h l by simp
qed

section \<open>Failed backend calls\<close>




end
